theory Spec2Isabelle
  imports Complex_Main "HOL-Library.Word" "HOL-Library.Sublist"
    "HOL-Library.List_Lexorder" "HOL-Library.Char_ord" "HOL-Library.Product_Lexorder"
begin

section \<open>JavaScript numbers\<close>

text \<open>
  A JavaScript number is an IEEE 754 binary64 value: a finite number, one of the two
  infinities, or \<open>NaN\<close>. Each arithmetic operation returns the exact result, rounded. The
  rounding, from an exact real to the nearest number or to an infinity on overflow, is a
  parameter \<open>rnd\<close> of the model, so that what is proved holds for every rounding, that of
  binary64 included; an exact zero is a number and is never rounded. The negative zero is
  identified with zero: it differs from it only as a divisor, and the one division of the
  program is guarded against a zero divisor.
\<close>

datatype num = Fin real | PInf | NInf | NaN

type_synonym rounding = "real \<Rightarrow> num"

definition fl :: "rounding \<Rightarrow> real \<Rightarrow> num" where
  "fl rnd x = (if x = 0 then Fin 0 else rnd x)"

fun is_neg :: "num \<Rightarrow> bool" where
  "is_neg (Fin a) = (a < 0)"
| "is_neg NInf = True"
| "is_neg _ = False"

definition signed_inf :: "bool \<Rightarrow> num" where
  "signed_inf neg = (if neg then NInf else PInf)"

fun n_add :: "rounding \<Rightarrow> num \<Rightarrow> num \<Rightarrow> num" where
  "n_add rnd NaN y = NaN"
| "n_add rnd x NaN = NaN"
| "n_add rnd (Fin a) (Fin b) = fl rnd (a + b)"
| "n_add rnd PInf NInf = NaN"
| "n_add rnd NInf PInf = NaN"
| "n_add rnd PInf y = PInf"
| "n_add rnd x PInf = PInf"
| "n_add rnd NInf y = NInf"
| "n_add rnd x NInf = NInf"

fun n_mul :: "rounding \<Rightarrow> num \<Rightarrow> num \<Rightarrow> num" where
  "n_mul rnd NaN y = NaN"
| "n_mul rnd x NaN = NaN"
| "n_mul rnd (Fin a) (Fin b) = fl rnd (a * b)"
| "n_mul rnd x y =
     (if x = Fin 0 \<or> y = Fin 0 then NaN else signed_inf (is_neg x \<noteq> is_neg y))"

fun n_div :: "rounding \<Rightarrow> num \<Rightarrow> num \<Rightarrow> num" where
  "n_div rnd NaN y = NaN"
| "n_div rnd x NaN = NaN"
| "n_div rnd (Fin a) (Fin b) =
     (if b = 0 then (if a = 0 then NaN else signed_inf (a < 0)) else fl rnd (a / b))"
| "n_div rnd (Fin a) y = Fin 0"
| "n_div rnd x (Fin b) = signed_inf (is_neg x \<noteq> (b < 0))"
| "n_div rnd x y = NaN"

fun n_sqrt :: "rounding \<Rightarrow> num \<Rightarrow> num" where
  "n_sqrt rnd (Fin a) = (if a < 0 then NaN else fl rnd (sqrt a))"
| "n_sqrt rnd PInf = PInf"
| "n_sqrt rnd x = NaN"

text \<open>\<open>x >= y\<close> and \<open>x === 0\<close>. Every comparison with \<open>NaN\<close> is false.\<close>

fun n_ge :: "num \<Rightarrow> num \<Rightarrow> bool" where
  "n_ge NaN y = False"
| "n_ge x NaN = False"
| "n_ge (Fin a) (Fin b) = (b \<le> a)"
| "n_ge PInf y = True"
| "n_ge x NInf = True"
| "n_ge x y = False"

definition n_is_zero :: "num \<Rightarrow> bool" where
  "n_is_zero x = (x = Fin 0)"

section \<open>Data model (src/types.ts)\<close>

text \<open>
  The numbers of an entry travel as JSON, which has finite numbers only: an embedding is a
  list of reals. Timestamps (\<open>Date.now()\<close>) are natural numbers. Strings are
  \<^typ>\<open>string\<close>. The field \<open>id\<close> of \<open>VectorSearchResult\<close> is called \<open>id_r\<close>, since \<open>id\<close> is
  the identity function of HOL.
\<close>

record CachedEntry =
  prompt :: string
  embedding :: "real list"
  response :: string
  timestamp :: nat
  model :: string

text \<open>
  What the program can throw: \<open>execute\<close> throws on a response that is not ok, \<open>AI.run\<close>
  may throw, \<open>JSON.parse\<close> throws a SyntaxError, and reading a property of \<open>null\<close> or
  \<open>undefined\<close> throws a TypeError.
\<close>

datatype error = RedisError | AIError | SyntaxError | TypeError

section \<open>JSON texts and parsed values\<close>

text \<open>
  \<open>JSON.stringify\<close> and \<open>JSON.parse\<close> are library functions, and \<open>JSON.parse\<close> returns
  whatever value the text denotes; the annotation \<open>CachedEntry\<close> on its result checks
  nothing. A parsed value is either an object of the shape of \<open>CachedEntry\<close>, or any other
  value. Of another value the program reads \<open>entry.embedding\<close> and, in
  \<open>cosineSimilarity\<close>, its \<open>length\<close> and its elements under \<open>*\<close>; \<open>seen\<close> is what these
  reads give:
  \<^item> \<open>Throws\<close>: the value is \<open>null\<close>, or its \<open>embedding\<close> is missing or \<open>null\<close>, and the
    read throws a TypeError;
  \<^item> \<open>NoLength\<close>: the \<open>embedding\<close> is there and its \<open>length\<close> is not the length of any
    array (a number or a boolean, say, whose \<open>length\<close> is \<open>undefined\<close>);
  \<^item> \<open>Elements ns\<close>: the \<open>length\<close> of the \<open>embedding\<close> is the length of \<open>ns\<close>, and its
    element \<open>i\<close> converts under \<open>*\<close> to the number \<open>ns ! i\<close> (an array of numbers, but also
    an array with other elements, or a string).
  The second argument of \<open>JOther\<close> is the \<open>response\<close> of the value, when it has one.
  A text is either the serialisation of a value or no JSON at all.
\<close>

datatype seen = Throws | NoLength | Elements "num list"

datatype json = JEntry CachedEntry | JOther seen "string option"

fun embedding_of :: "json \<Rightarrow> seen" where
  "embedding_of (JEntry entry) = Elements (map Fin (embedding entry))"
| "embedding_of (JOther s resp) = s"

fun response_of :: "json \<Rightarrow> string option" where
  "response_of (JEntry entry) = Some (response entry)"
| "response_of (JOther s resp) = resp"

datatype jtext = Stringified json | NotJson

definition JSON_stringify :: "json \<Rightarrow> jtext" where
  "JSON_stringify v = Stringified v"

fun JSON_parse :: "jtext \<Rightarrow> error + json" where
  "JSON_parse (Stringified v) = Inr v"
| "JSON_parse NotJson = Inl SyntaxError"

text \<open>The \<open>data\<close> of a search result is the parsed value itself.\<close>

record VectorSearchResult =
  id_r :: string
  score :: num
  data :: json

section \<open>The Redis REST endpoint (src/redis.ts, execute)\<close>

text \<open>
  The state of the remote store: whether the endpoint answers with an ok status, and what
  each key holds, in the order in which \<open>KEYS\<close> enumerates the keys (Redis leaves that order
  unspecified; here a new key goes to the end). A key either holds a text, which
  \<open>JSON.GET\<close> returns, or something for which \<open>JSON.GET\<close> answers with an error status.
\<close>

datatype slot = Holds jtext | Refuses

record redis_state =
  online :: bool
  docs :: "(string \<times> slot) list"

datatype command = KEYS string | JSON_GET string | JSON_SET string jtext

datatype reply = Keys "string list" | Got "jtext option" | Done

text \<open>A pattern with a trailing star matches the keys that start with the rest of it.\<close>

definition matches :: "string \<Rightarrow> string \<Rightarrow> bool" where
  "matches pat k =
     (if pat \<noteq> [] \<and> last pat = CHR ''*'' then prefix (butlast pat) k else pat = k)"

fun put_doc :: "string \<Rightarrow> slot \<Rightarrow> (string \<times> slot) list \<Rightarrow> (string \<times> slot) list" where
  "put_doc k v [] = [(k, v)]"
| "put_doc k v ((k', v') # kvs) =
     (if k = k' then (k, v) # kvs else (k', v') # put_doc k v kvs)"

fun execute :: "command \<Rightarrow> redis_state \<Rightarrow> (error + reply) \<times> redis_state" where
  "execute cmd r =
     (if \<not> online r then (Inl RedisError, r)
      else case cmd of
        KEYS pat \<Rightarrow> (Inr (Keys (filter (matches pat) (map fst (docs r)))), r)
      | JSON_GET k \<Rightarrow>
          (case map_of (docs r) k of
             None \<Rightarrow> (Inr (Got None), r)
           | Some (Holds t) \<Rightarrow> (Inr (Got (Some t)), r)
           | Some Refuses \<Rightarrow> (Inl RedisError, r))
      | JSON_SET k t \<Rightarrow>
          (case t of
             NotJson \<Rightarrow> (Inl RedisError, r)
           | Stringified v \<Rightarrow> (Inr Done, r\<lparr>docs := put_doc k (Holds t) (docs r)\<rparr>)))"

section \<open>RedisVectorStore (src/redis.ts)\<close>

subsection \<open>cosineSimilarity\<close>

text \<open>The loop over \<open>i < a.length\<close>, with its three accumulators.\<close>

fun cosine_loop :: "rounding \<Rightarrow> num list \<Rightarrow> num list \<Rightarrow> num \<times> num \<times> num \<Rightarrow> num \<times> num \<times> num" where
  "cosine_loop rnd (x # xs) (y # ys) (dotProduct, normA, normB) =
     cosine_loop rnd xs ys
       (n_add rnd dotProduct (n_mul rnd x y),
        n_add rnd normA (n_mul rnd x x),
        n_add rnd normB (n_mul rnd y y))"
| "cosine_loop rnd _ _ acc = acc"

text \<open>
  The ways out of \<open>cosineSimilarity\<close>: the TypeError of reading \<open>b.length\<close>, the early
  return on a length mismatch, the guarded return on a zero denominator, and the
  division, with its numerator and denominator.
\<close>

datatype cosine_path = Thrown | LengthMismatch | ZeroDenominator | Quotient num num

definition cosinePath :: "rounding \<Rightarrow> num list \<Rightarrow> seen \<Rightarrow> cosine_path" where
  "cosinePath rnd a b =
     (case b of
        Throws \<Rightarrow> Thrown
      | NoLength \<Rightarrow> LengthMismatch
      | Elements bs \<Rightarrow>
          if length a \<noteq> length bs then LengthMismatch
          else case cosine_loop rnd a bs (Fin 0, Fin 0, Fin 0) of
            (dotProduct, normA, normB) \<Rightarrow>
              let denominator = n_mul rnd (n_sqrt rnd normA) (n_sqrt rnd normB)
              in if n_is_zero denominator then ZeroDenominator
                 else Quotient dotProduct denominator)"

definition cosineSimilarity :: "rounding \<Rightarrow> num list \<Rightarrow> seen \<Rightarrow> error + num" where
  "cosineSimilarity rnd a b =
     (case cosinePath rnd a b of
        Thrown \<Rightarrow> Inl TypeError
      | LengthMismatch \<Rightarrow> Inr (Fin 0)
      | ZeroDenominator \<Rightarrow> Inr (Fin 0)
      | Quotient n d \<Rightarrow> Inr (n_div rnd n d))"

subsection \<open>store\<close>

definition store :: "string \<Rightarrow> CachedEntry \<Rightarrow> redis_state \<Rightarrow> (error + unit) \<times> redis_state" where
  "store i entry r =
     (case execute (JSON_SET (''cache:'' @ i) (JSON_stringify (JEntry entry))) r of
        (Inl e, r') \<Rightarrow> (Inl e, r')
      | (Inr _, r') \<Rightarrow> (Inr (), r'))"

subsection \<open>searchSimilar\<close>

text \<open>
  The body of the \<open>for (const key of keys)\<close> loop. Everything thrown inside the \<open>try\<close>
  block ends in \<open>catch (e) { continue; }\<close>; a value that \<open>cosineSimilarity\<close> can score is
  scored, whatever else it lacks. The threshold is a finite number.
\<close>

fun scan :: "rounding \<Rightarrow> string list \<Rightarrow> num list \<Rightarrow> real \<Rightarrow> VectorSearchResult list
    \<Rightarrow> redis_state \<Rightarrow> VectorSearchResult list \<times> redis_state" where
  "scan rnd [] emb threshold results r = (results, r)"
| "scan rnd (key # keys) emb threshold results r =
     (case execute (JSON_GET key) r of
        (Inl e, r') \<Rightarrow> scan rnd keys emb threshold results r'
      | (Inr (Got None), r') \<Rightarrow> scan rnd keys emb threshold results r'
      | (Inr (Got (Some entryJson)), r') \<Rightarrow>
          (case JSON_parse entryJson of
             Inl e \<Rightarrow> scan rnd keys emb threshold results r'
           | Inr entry \<Rightarrow>
               (case cosineSimilarity rnd emb (embedding_of entry) of
                  Inl e \<Rightarrow> scan rnd keys emb threshold results r'
                | Inr similarity \<Rightarrow>
                    if n_ge similarity (Fin threshold)
                    then scan rnd keys emb threshold
                           (results @ [\<lparr>id_r = key, score = similarity, data = entry\<rparr>]) r'
                    else scan rnd keys emb threshold results r'))
      | (Inr _, r') \<Rightarrow> scan rnd keys emb threshold results r')"

text \<open>
  \<open>results.sort((a, b) => b.score - a.score)\<close>: \<open>Array.prototype.sort\<close> is stable. A score
  in \<open>results\<close> has passed \<open>similarity >= threshold\<close> and is not \<open>NaN\<close>; on such numbers the
  sign of the difference is that of the order (the difference of two equal infinities is
  \<open>NaN\<close>, which the sort takes for 0), so the comparator orders by descending score.
  \<open>down\<close> maps the numbers to a linear order in which the greater number comes first.
\<close>

fun down :: "num \<Rightarrow> int \<times> real" where
  "down PInf = (0, 0)"
| "down (Fin a) = (1, - a)"
| "down NInf = (2, 0)"
| "down NaN = (3, 0)"

definition sort_desc :: "VectorSearchResult list \<Rightarrow> VectorSearchResult list" where
  "sort_desc results = sort_key (\<lambda>m. down (score m)) results"

text \<open>\<open>xs.slice(0, stop)\<close>: a negative \<open>stop\<close> counts from the end of the array.\<close>

definition slice0 :: "int \<Rightarrow> 'a list \<Rightarrow> 'a list" where
  "slice0 stop xs =
     (if stop < 0 then take (nat (int (length xs) + stop)) xs else take (nat stop) xs)"

definition searchSimilar :: "rounding \<Rightarrow> num list \<Rightarrow> real \<Rightarrow> int \<Rightarrow> redis_state
    \<Rightarrow> (error + VectorSearchResult list) \<times> redis_state" where
  "searchSimilar rnd emb threshold limit r =
     (case execute (KEYS ''cache:*'') r of
        (Inl e, r') \<Rightarrow> (Inl e, r')
      | (Inr (Keys keys), r') \<Rightarrow>
          if keys = [] then (Inr [], r')
          else (case scan rnd keys emb threshold [] r' of
                  (results, r'') \<Rightarrow> (Inr (slice0 limit (sort_desc results)), r''))
      | (Inr _, r') \<Rightarrow> (Inr [], r'))"

subsection \<open>getCacheSize\<close>

definition getCacheSize :: "redis_state \<Rightarrow> (error + nat) \<times> redis_state" where
  "getCacheSize r =
     (case execute (KEYS ''cache:*'') r of
        (Inl e, r') \<Rightarrow> (Inl e, r')
      | (Inr (Keys keys), r') \<Rightarrow> (Inr (length keys), r')
      | (Inr _, r') \<Rightarrow> (Inr 0, r'))"

section \<open>PromptCache (src/cache.ts)\<close>

text \<open>
  The Workers AI binding. \<open>generateEmbedding\<close> returns \<open>response.data[0]\<close>, typed
  \<open>number[]\<close>; the embedding model either throws or answers with such a vector, of finite
  numbers, and gives the same answer for the same text. \<open>complete\<close> is the completion call
  of the \<open>/chat\<close> handler (\<open>env.AI.run(model, ...)\<close> in its first version,
  \<open>callModelGateway\<close> later). \<open>SIMILARITY_THRESHOLD\<close> is the number that \<open>parseFloat\<close> reads
  from the variable, when it is set and not empty.
\<close>

datatype ai_reply = AiThrows | AiData "real list"

record Env =
  AI_embed :: "string \<Rightarrow> ai_reply"
  complete :: "string \<Rightarrow> string \<Rightarrow> error + string"
  SIMILARITY_THRESHOLD :: "real option"

record PromptCache =
  ai :: "string \<Rightarrow> ai_reply"
  similarityThreshold :: real

definition PromptCache_new :: "Env \<Rightarrow> PromptCache" where
  "PromptCache_new env =
     \<lparr>ai = AI_embed env,
      similarityThreshold = (case SIMILARITY_THRESHOLD env of None \<Rightarrow> 0.85 | Some t \<Rightarrow> t)\<rparr>"

text \<open>
  Everything outside the worker that a request can read or change: the Redis store, the
  texts sent to the embedding model so far (one entry for each call of it), the clock
  read by \<open>Date.now()\<close>, and the two counters kept in the KV namespace \<open>CACHE_STATS\<close>.
\<close>

record world =
  redis :: redis_state
  embedded :: "string list"
  clock :: nat
  hits :: nat
  misses :: nat

definition generateEmbedding :: "PromptCache \<Rightarrow> string \<Rightarrow> world \<Rightarrow> (error + real list) \<times> world" where
  "generateEmbedding c txt w =
     (let w' = w\<lparr>embedded := embedded w @ [txt]\<rparr>
      in case ai c txt of
           AiThrows \<Rightarrow> (Inl AIError, w')
         | AiData v \<Rightarrow> (Inr v, w'))"

text \<open>The result \<open>null\<close> of \<open>findSimilarCache\<close> is \<open>None\<close>.\<close>

definition findSimilarCache :: "rounding \<Rightarrow> PromptCache \<Rightarrow> string \<Rightarrow> world
    \<Rightarrow> (error + (json \<times> num) option) \<times> world" where
  "findSimilarCache rnd c p w =
     (case generateEmbedding c p w of
        (Inl e, w1) \<Rightarrow> (Inl e, w1)
      | (Inr emb, w1) \<Rightarrow>
          (case searchSimilar rnd (map Fin emb) (similarityThreshold c) 1 (redis w1) of
             (Inl e, r') \<Rightarrow> (Inl e, w1\<lparr>redis := r'\<rparr>)
           | (Inr results, r') \<Rightarrow>
               (case results of
                  [] \<Rightarrow> (Inr None, w1\<lparr>redis := r'\<rparr>)
                | best # _ \<Rightarrow> (Inr (Some (data best, score best)), w1\<lparr>redis := r'\<rparr>))))"

subsection \<open>generateId\<close>

text \<open>
  \<open>hash = (hash << 5) - hash + char; hash = hash & hash\<close> keeps \<open>hash\<close> a 32-bit signed
  integer; the intermediate values are exact, so the loop is arithmetic on 32-bit words.
  \<open>charCodeAt\<close> is the code of the character.
\<close>

fun hash_loop :: "string \<Rightarrow> 32 word \<Rightarrow> 32 word" where
  "hash_loop [] h = h"
| "hash_loop (c # cs) h = hash_loop cs (push_bit 5 h - h + of_char c)"

function show_nat :: "nat \<Rightarrow> string" where
  "show_nat n =
     (if n < 10 then [''0123456789'' ! n]
      else show_nat (n div 10) @ [''0123456789'' ! (n mod 10)])"
  by pat_completeness auto
termination
  by (relation "measure (\<lambda>n. n)") auto

definition generateId :: "string \<Rightarrow> nat \<Rightarrow> string" where
  "generateId p now =
     show_nat (nat \<bar>sint (hash_loop p 0)\<bar>) @ ''_'' @ show_nat now"

subsection \<open>cacheResponse and getStats\<close>

text \<open>
  The two calls of \<open>Date.now()\<close> in \<open>cacheResponse\<close>, for the timestamp of the entry and
  inside \<open>generateId\<close>, read the same value of the clock.
\<close>

definition cacheResponse :: "PromptCache \<Rightarrow> string \<Rightarrow> string \<Rightarrow> string \<Rightarrow> world
    \<Rightarrow> (error + unit) \<times> world" where
  "cacheResponse c p resp mdl w =
     (case generateEmbedding c p w of
        (Inl e, w1) \<Rightarrow> (Inl e, w1)
      | (Inr emb, w1) \<Rightarrow>
          (let entry = \<lparr>prompt = p, embedding = emb, response = resp,
                        timestamp = clock w1, model = mdl\<rparr>;
               i = generateId p (clock w1)
           in case store i entry (redis w1) of
                (Inl e, r') \<Rightarrow> (Inl e, w1\<lparr>redis := r'\<rparr>)
              | (Inr u, r') \<Rightarrow> (Inr (), w1\<lparr>redis := r'\<rparr>)))"

definition getStats :: "world \<Rightarrow> (error + nat) \<times> world" where
  "getStats w =
     (case getCacheSize (redis w) of
        (Inl e, r') \<Rightarrow> (Inl e, w\<lparr>redis := r'\<rparr>)
      | (Inr n, r') \<Rightarrow> (Inr n, w\<lparr>redis := r'\<rparr>))"

section \<open>The /chat handler (src/index.ts)\<close>

text \<open>
  The handler from the parsed body on: \<open>p\<close> is \<open>body.prompt\<close> and \<open>mdl\<close> the model after its
  default. The responses are the cached answer (the \<open>response\<close> of the entry found, when
  it has one) with its similarity, the fresh answer, the 400 for a missing prompt, and the
  500 of the \<open>catch\<close> block. Reading and writing the two counters of the KV namespace
  always succeeds.
\<close>

datatype http_response =
    Ok_cached "string option" num nat
  | Ok_fresh string nat
  | Bad_request
  | Server_error error

definition chat :: "rounding \<Rightarrow> Env \<Rightarrow> string \<Rightarrow> string \<Rightarrow> world \<Rightarrow> http_response \<times> world" where
  "chat rnd env p mdl w =
     (if p = [] then (Bad_request, w)
      else
        let cache = PromptCache_new env
        in case findSimilarCache rnd cache p w of
             (Inl e, w1) \<Rightarrow> (Server_error e, w1)
           | (Inr (Some (entry, similarity)), w1) \<Rightarrow>
               (let w2 = w1\<lparr>hits := hits w1 + 1\<rparr>
                in (Ok_cached (response_of entry) similarity (clock w2), w2))
           | (Inr None, w1) \<Rightarrow>
               (let w2 = w1\<lparr>misses := misses w1 + 1\<rparr>
                in case complete env mdl p of
                     Inl e \<Rightarrow> (Server_error e, w2)
                   | Inr responseText \<Rightarrow>
                       (case cacheResponse cache p responseText mdl w2 of
                          (Inl e, w3) \<Rightarrow> (Server_error e, w3)
                        | (Inr u, w3) \<Rightarrow> (Ok_fresh responseText (clock w3), w3))))"

section \<open>Notions used to state the properties\<close>

text \<open>
  What one key contributes to the result array of \<open>searchSimilar\<close>: the match built from
  the value it holds, when the value can be scored and its similarity reaches the
  threshold.
\<close>

definition value_match :: "rounding \<Rightarrow> num list \<Rightarrow> real \<Rightarrow> string \<Rightarrow> json \<Rightarrow> VectorSearchResult list" where
  "value_match rnd emb threshold key v =
     (case cosineSimilarity rnd emb (embedding_of v) of
        Inl e \<Rightarrow> []
      | Inr s \<Rightarrow> if n_ge s (Fin threshold) then [\<lparr>id_r = key, score = s, data = v\<rparr>] else [])"

definition key_match :: "rounding \<Rightarrow> redis_state \<Rightarrow> num list \<Rightarrow> real \<Rightarrow> string \<Rightarrow> VectorSearchResult list" where
  "key_match rnd r emb threshold key =
     (if \<not> online r then []
      else case map_of (docs r) key of
        Some (Holds (Stringified v)) \<Rightarrow> value_match rnd emb threshold key v
      | _ \<Rightarrow> [])"


text \<open>The result array of \<open>searchSimilar\<close> before it is sorted and cut.\<close>

definition all_matches :: "rounding \<Rightarrow> redis_state \<Rightarrow> num list \<Rightarrow> real \<Rightarrow> VectorSearchResult list" where
  "all_matches rnd r emb threshold =
     concat (map (key_match rnd r emb threshold) (filter (matches ''cache:*'') (map fst (docs r))))"


text \<open>
  The sum of squares that the loop accumulates for one vector, and the magnitude that
  \<open>Math.sqrt\<close> makes of it.
\<close>

fun sum_squares :: "rounding \<Rightarrow> num list \<Rightarrow> num \<Rightarrow> num" where
  "sum_squares rnd [] acc = acc"
| "sum_squares rnd (x # xs) acc = sum_squares rnd xs (n_add rnd acc (n_mul rnd x x))"

definition magnitude :: "rounding \<Rightarrow> num list \<Rightarrow> num" where
  "magnitude rnd a = n_sqrt rnd (sum_squares rnd a (Fin 0))"

text \<open>
  Ties broken by ascending id, on a sequence sorted by score: of two neighbours with the
  same score, the first has the smaller id (strings compare character by character).
\<close>

fun ties_ascending :: "VectorSearchResult list \<Rightarrow> bool" where
  "ties_ascending (a # b # ms) =
     ((if score a = score b then id_r a < id_r b else True) \<and> ties_ascending (b # ms))"
| "ties_ascending _ = True"

subsection \<open>Test data\<close>

text \<open>
  Two roundings. \<open>exact\<close> rounds nothing; on the test data below, whose numbers are 0 and
  1, binary64 arithmetic is exact as well. \<open>binary64_range\<close> is exact up to the greatest
  magnitude of binary64 and overflows beyond it.
\<close>

definition exact :: rounding where
  "exact x = Fin x"

definition binary64_range :: rounding where
  "binary64_range x =
     (if 2 ^ 1024 \<le> x then PInf else if x \<le> - (2 ^ 1024) then NInf else Fin x)"

text \<open>The record of the scenario of the specification, an empty store and a fresh world.\<close>

definition capital_entry :: CachedEntry where
  "capital_entry =
     \<lparr>prompt = ''What is the capital of France?'', embedding = [1, 0, 0],
      response = ''Paris'', timestamp = 0, model = ''llama''\<rparr>"

definition empty_store :: redis_state where
  "empty_store = \<lparr>online = True, docs = []\<rparr>"

definition capital_store :: redis_state where
  "capital_store =
     \<lparr>online = True, docs = [(''cache:a'', Holds (Stringified (JEntry capital_entry)))]\<rparr>"

definition short_entry :: CachedEntry where
  "short_entry =
     \<lparr>prompt = ''Hello'', embedding = [1], response = ''Hi'', timestamp = 0, model = ''llama''\<rparr>"

definition mixed_store :: redis_state where
  "mixed_store =
     \<lparr>online = True,
      docs = [(''cache:short'', Holds (Stringified (JEntry short_entry))),
              (''cache:a'', Holds (Stringified (JEntry capital_entry)))]\<rparr>"




text \<open>The store after the same entry has been stored under \<open>b\<close> and then under \<open>a\<close>.\<close>

definition tied_store :: redis_state where
  "tied_store = snd (store ''a'' capital_entry (snd (store ''b'' capital_entry empty_store)))"

definition fresh_world :: world where
  "fresh_world = \<lparr>redis = empty_store, embedded = [], clock = 0, hits = 0, misses = 0\<rparr>"

definition capital_world :: world where
  "capital_world = \<lparr>redis = capital_store, embedded = [], clock = 0, hits = 0, misses = 0\<rparr>"

definition unit_cache :: PromptCache where
  "unit_cache = \<lparr>ai = (\<lambda>txt. AiData [1, 0, 0]), similarityThreshold = 0.85\<rparr>"

definition other_cache :: PromptCache where
  "other_cache = \<lparr>ai = (\<lambda>txt. AiData [0, 1, 0]), similarityThreshold = 0.85\<rparr>"

definition failing_cache :: PromptCache where
  "failing_cache = \<lparr>ai = (\<lambda>txt. AiThrows), similarityThreshold = 0.85\<rparr>"

definition zero_cache :: PromptCache where
  "zero_cache = \<lparr>ai = (\<lambda>txt. AiData [0, 0, 0]), similarityThreshold = 0.85\<rparr>"

definition empty_cache :: PromptCache where
  "empty_cache = \<lparr>ai = (\<lambda>txt. AiData []), similarityThreshold = 0.85\<rparr>"

definition unit_env :: Env where
  "unit_env =
     \<lparr>AI_embed = (\<lambda>txt. AiData [1, 0, 0]), complete = (\<lambda>mdl p. Inr ''Paris''),
      SIMILARITY_THRESHOLD = None\<rparr>"

section \<open>Facts about numbers\<close>

lemma n_ge_not_NaN: "n_ge x y \<Longrightarrow> x \<noteq> NaN \<and> y \<noteq> NaN"
  by (cases x; cases y) simp_all

lemma down_le_iff: "x \<noteq> NaN \<Longrightarrow> y \<noteq> NaN \<Longrightarrow> down x \<le> down y \<longleftrightarrow> n_ge x y"
  by (cases x; cases y) simp_all

lemma down_eq_iff: "down x = down y \<longleftrightarrow> x = y"
  by (cases x; cases y) simp_all

lemma n_ge_refl: "x \<noteq> NaN \<Longrightarrow> n_ge x x"
  by (cases x) simp_all

lemma n_ge_antisym: "n_ge x y \<Longrightarrow> n_ge y x \<Longrightarrow> x = y"
  by (cases x; cases y) simp_all

lemma n_ge_total: "x \<noteq> NaN \<Longrightarrow> y \<noteq> NaN \<Longrightarrow> n_ge x y \<or> n_ge y x"
  by (cases x; cases y) auto

section \<open>Facts about the store\<close>

declare execute.simps [simp del]

lemma execute_KEYS:
  "execute (KEYS pat) r =
     (if online r then Inr (Keys (filter (matches pat) (map fst (docs r)))) else Inl RedisError, r)"
  by (simp add: execute.simps)

lemma execute_JSON_GET_state: "snd (execute (JSON_GET k) r) = r"
  by (simp add: execute.simps split: option.splits slot.splits)

lemma matches_cache: "matches ''cache:*'' k = prefix ''cache:'' k"
  by (simp add: matches_def)

text \<open>The loop leaves the store as it is and appends what each key contributes.\<close>

lemma scan_eq:
  "scan rnd keys emb threshold acc r =
     (acc @ concat (map (key_match rnd r emb threshold) keys), r)"
proof (induction keys arbitrary: acc)
  case Nil
  show ?case by simp
next
  case (Cons key keys)
  show ?case
    by (simp add: Cons.IH execute.simps key_match_def value_match_def
        split: option.splits slot.splits jtext.splits sum.splits)
qed

lemma searchSimilar_eq:
  "searchSimilar rnd emb threshold limit r =
     (if online r then Inr (slice0 limit (sort_desc (all_matches rnd r emb threshold)))
      else Inl RedisError, r)"
  by (simp add: searchSimilar_def execute_KEYS scan_eq all_matches_def slice0_def sort_desc_def)

lemma value_match_cases:
  assumes "m \<in> set (value_match rnd emb threshold k v)"
  shows "m = \<lparr>id_r = k, score = score m, data = v\<rparr> \<and> n_ge (score m) (Fin threshold)
    \<and> cosineSimilarity rnd emb (embedding_of v) = Inr (score m)"
  using assms by (auto simp: value_match_def split: sum.splits if_splits)

lemma key_match_cases:
  assumes "m \<in> set (key_match rnd r emb threshold k)"
  shows "online r \<and> id_r m = k \<and> n_ge (score m) (Fin threshold)
    \<and> cosineSimilarity rnd emb (embedding_of (data m)) = Inr (score m)
    \<and> map_of (docs r) k = Some (Holds (Stringified (data m)))"
proof -
  from assms obtain v where v: "online r" "Some (Holds (Stringified v)) = map_of (docs r) k"
      "m \<in> set (value_match rnd emb threshold k v)"
    by (auto simp: key_match_def
        split: if_splits option.splits slot.splits jtext.splits)
  from value_match_cases [OF v(3)] have "id_r m = k" "data m = v"
      "n_ge (score m) (Fin threshold)"
      "cosineSimilarity rnd emb (embedding_of v) = Inr (score m)"
    by (cases m, simp)+
  with v(1) v(2) [symmetric] show ?thesis by simp
qed

lemma all_matches_cases:
  assumes "m \<in> set (all_matches rnd r emb threshold)"
  shows "online r \<and> prefix ''cache:'' (id_r m) \<and> n_ge (score m) (Fin threshold)
    \<and> cosineSimilarity rnd emb (embedding_of (data m)) = Inr (score m)
    \<and> map_of (docs r) (id_r m) = Some (Holds (Stringified (data m)))"
proof -
  from assms obtain k where k: "prefix ''cache:'' k" "m \<in> set (key_match rnd r emb threshold k)"
    by (auto simp: all_matches_def matches_cache)
  from key_match_cases [OF k(2)] k(1) show ?thesis by simp
qed

lemma set_slice0: "set (slice0 limit xs) \<subseteq> set xs"
  by (auto simp: slice0_def dest: in_set_takeD)

lemma set_sort_desc: "set (sort_desc xs) = set xs"
  by (simp add: sort_desc_def)

lemma search_results_cases:
  assumes "searchSimilar rnd emb threshold limit r = (Inr results, r')" and "m \<in> set results"
  shows "m \<in> set (all_matches rnd r emb threshold)"
proof -
  from assms(1) have "results = slice0 limit (sort_desc (all_matches rnd r emb threshold))"
    by (auto simp: searchSimilar_eq split: if_splits)
  with assms(2) set_slice0 [of limit "sort_desc (all_matches rnd r emb threshold)"]
  show ?thesis by (auto simp: set_sort_desc)
qed

subsection \<open>Order of the results\<close>

lemma sorted_sort_desc: "sorted_wrt (\<lambda>a b. down (score a) \<le> down (score b)) (sort_desc xs)"
proof -
  have "sorted (map (\<lambda>m. down (score m)) (sort_desc xs))"
    by (simp add: sort_desc_def)
  then show ?thesis by (simp add: sorted_map)
qed

lemma sorted_slice0:
  "sorted_wrt P xs \<Longrightarrow> sorted_wrt P (slice0 limit xs)"
  by (simp add: slice0_def)

lemma filter_sort_desc:
  "filter (\<lambda>m. score m = s) (sort_desc xs) = filter (\<lambda>m. score m = s) xs"
  using sort_key_stable [of "\<lambda>m. down (score m)" "down s" xs]
  by (simp add: sort_desc_def down_eq_iff)

lemma prefix_filter_take: "prefix (filter P (take n xs)) (filter P xs)"
proof -
  have "prefix (take n xs) xs" by (rule take_is_prefix)
  then show ?thesis by (rule filter_mono_prefix)
qed

lemma prefix_filter_slice0: "prefix (filter P (slice0 limit xs)) (filter P xs)"
  by (simp add: slice0_def prefix_filter_take)

lemma subseq_key_match:
  "subseq (map id_r (concat (map (key_match rnd r emb threshold) ks))) ks"
proof (induction ks)
  case Nil
  show ?case by simp
next
  case (Cons k ks)
  then show ?case
    by (auto simp: key_match_def value_match_def
        split: option.splits slot.splits jtext.splits sum.splits)
qed

lemma subseq_all_matches:
  "subseq (map id_r (all_matches rnd r emb threshold)) (map fst (docs r))"
proof -
  have "subseq (map id_r (all_matches rnd r emb threshold))
          (filter (matches ''cache:*'') (map fst (docs r)))"
    unfolding all_matches_def by (rule subseq_key_match)
  moreover have "subseq (filter (matches ''cache:*'') (map fst (docs r))) (map fst (docs r))"
    by simp
  ultimately show ?thesis by (rule subseq_order.trans)
qed

section \<open>Evaluation on the test data\<close>

lemma cosine_unit_unit:
  "cosineSimilarity exact [Fin 1, Fin 0, Fin 0] (Elements [Fin 1, Fin 0, Fin 0]) = Inr (Fin 1)"
  by (simp add: cosineSimilarity_def cosinePath_def fl_def exact_def n_is_zero_def Let_def)

lemma cosine_unit_other:
  "cosineSimilarity exact [Fin 0, Fin 1, Fin 0] (Elements [Fin 1, Fin 0, Fin 0]) = Inr (Fin 0)"
  by (simp add: cosineSimilarity_def cosinePath_def fl_def exact_def n_is_zero_def Let_def)

lemma search_capital_store:
  "searchSimilar exact [Fin 1, Fin 0, Fin 0] 0.85 1 capital_store =
     (Inr [\<lparr>id_r = ''cache:a'', score = Fin 1, data = JEntry capital_entry\<rparr>], capital_store)"
  by (simp add: searchSimilar_eq all_matches_def capital_store_def matches_cache key_match_def
      value_match_def capital_entry_def cosine_unit_unit slice0_def sort_desc_def)

lemma tied_store_eq:
  "tied_store =
     \<lparr>online = True,
      docs = [(''cache:b'', Holds (Stringified (JEntry capital_entry))),
              (''cache:a'', Holds (Stringified (JEntry capital_entry)))]\<rparr>"
  by (simp add: tied_store_def store_def execute.simps empty_store_def JSON_stringify_def)

lemma search_tied_store:
  "searchSimilar exact [Fin 1, Fin 0, Fin 0] 0.85 2 tied_store =
     (Inr [\<lparr>id_r = ''cache:b'', score = Fin 1, data = JEntry capital_entry\<rparr>,
           \<lparr>id_r = ''cache:a'', score = Fin 1, data = JEntry capital_entry\<rparr>], tied_store)"
  by (simp add: searchSimilar_eq all_matches_def tied_store_eq matches_cache key_match_def
      value_match_def capital_entry_def cosine_unit_unit slice0_def sort_desc_def)

section \<open>The threshold filter\<close>

text \<open>
  C2. Whatever the query embedding, the threshold and the limit, every match in the
  sequence that \<open>searchSimilar\<close> returns has a score at or above the threshold.
\<close>

theorem search_threshold_filter:
  assumes "searchSimilar rnd emb threshold limit r = (Inr results, r')"
    and "m \<in> set results"
  shows "n_ge (score m) (Fin threshold)"
  using all_matches_cases [OF search_results_cases [OF assms]] by simp

theorem search_threshold_filter_witness:
  "searchSimilar exact [Fin 1, Fin 0, Fin 0] 0.85 1 capital_store =
     (Inr [\<lparr>id_r = ''cache:a'', score = Fin 1, data = JEntry capital_entry\<rparr>], capital_store)
   \<and> n_ge (score \<lparr>id_r = ''cache:a'', score = Fin 1, data = JEntry capital_entry\<rparr>) (Fin 0.85)"
proof -
  have h: "searchSimilar exact [Fin 1, Fin 0, Fin 0] 0.85 1 capital_store =
     (Inr [\<lparr>id_r = ''cache:a'', score = Fin 1, data = JEntry capital_entry\<rparr>], capital_store)"
    by (rule search_capital_store)
  have "n_ge (score \<lparr>id_r = ''cache:a'', score = Fin 1, data = JEntry capital_entry\<rparr>) (Fin 0.85)"
    by (rule search_threshold_filter [OF h]) simp
  with h show ?thesis by (rule conjI)
qed

section \<open>The order of the results\<close>

text \<open>
  C3, as the code has it. The sequence that \<open>searchSimilar\<close> returns is sorted descending
  by score. Matches with the same score are not ordered by id: they keep the order in
  which \<open>KEYS\<close> enumerated their keys, so for every score \<open>s\<close> the ids of the returned
  matches with that score are a subsequence of the enumeration.
\<close>

theorem search_sorted_ties_in_key_order:
  assumes "searchSimilar rnd emb threshold limit r = (Inr results, r')"
  shows "sorted_wrt (\<lambda>a b. n_ge (score a) (score b)) results
    \<and> subseq (map id_r (filter (\<lambda>m. score m = s) results)) (map fst (docs r))"
proof -
  let ?all = "all_matches rnd r emb threshold"
  from assms have results: "results = slice0 limit (sort_desc ?all)"
    by (auto simp: searchSimilar_eq split: if_splits)
  have number: "score m \<noteq> NaN" if "m \<in> set results" for m
    using all_matches_cases [OF search_results_cases [OF assms that]] n_ge_not_NaN by blast
  have "sorted_wrt (\<lambda>a b. down (score a) \<le> down (score b)) results"
    unfolding results by (rule sorted_slice0) (rule sorted_sort_desc)
  then have "sorted_wrt (\<lambda>a b. n_ge (score a) (score b)) results"
    by (rule sorted_wrt_mono_rel [rotated]) (simp add: down_le_iff number)
  moreover have "subseq (map id_r (filter (\<lambda>m. score m = s) results)) (map fst (docs r))"
  proof -
    have "prefix (filter (\<lambda>m. score m = s) results) (filter (\<lambda>m. score m = s) ?all)"
      using prefix_filter_slice0 [of "\<lambda>m. score m = s" limit "sort_desc ?all"]
      by (simp add: results filter_sort_desc)
    then have "subseq (filter (\<lambda>m. score m = s) results) (filter (\<lambda>m. score m = s) ?all)"
      by (rule prefix_imp_subseq)
    moreover have "subseq (filter (\<lambda>m. score m = s) ?all) ?all"
      by simp
    ultimately have "subseq (filter (\<lambda>m. score m = s) results) ?all"
      by (rule subseq_order.trans)
    then have "subseq (map id_r (filter (\<lambda>m. score m = s) results)) (map id_r ?all)"
      by (rule subseq_map)
    then show ?thesis
      using subseq_all_matches [of rnd r emb threshold] by (rule subseq_order.trans)
  qed
  ultimately show ?thesis by (rule conjI)
qed

theorem search_sorted_ties_in_key_order_witness:
  "searchSimilar exact [Fin 1, Fin 0, Fin 0] 0.85 2 tied_store =
     (Inr [\<lparr>id_r = ''cache:b'', score = Fin 1, data = JEntry capital_entry\<rparr>,
           \<lparr>id_r = ''cache:a'', score = Fin 1, data = JEntry capital_entry\<rparr>], tied_store)
   \<and> subseq [''cache:b'', ''cache:a''] (map fst (docs tied_store))"
proof -
  have h: "searchSimilar exact [Fin 1, Fin 0, Fin 0] 0.85 2 tied_store =
     (Inr [\<lparr>id_r = ''cache:b'', score = Fin 1, data = JEntry capital_entry\<rparr>,
           \<lparr>id_r = ''cache:a'', score = Fin 1, data = JEntry capital_entry\<rparr>], tied_store)"
    by (rule search_tied_store)
  from search_sorted_ties_in_key_order [OF h, of "Fin 1"]
  have "subseq [''cache:b'', ''cache:a''] (map fst (docs tied_store))"
    by simp
  with h show ?thesis by (rule conjI)
qed

text \<open>
  The claim as written fails: the two matches below have the same score and come back
  with the greater id first.
\<close>

theorem search_ties_not_by_id:
  "fst (searchSimilar exact [Fin 1, Fin 0, Fin 0] 0.85 2 tied_store) =
     Inr [\<lparr>id_r = ''cache:b'', score = Fin 1, data = JEntry capital_entry\<rparr>,
          \<lparr>id_r = ''cache:a'', score = Fin 1, data = JEntry capital_entry\<rparr>]
   \<and> \<not> ties_ascending [\<lparr>id_r = ''cache:b'', score = Fin 1, data = JEntry capital_entry\<rparr>,
                        \<lparr>id_r = ''cache:a'', score = Fin 1, data = JEntry capital_entry\<rparr>]"
  using search_tied_store by simp

section \<open>Cosine similarity\<close>

lemma cosine_loop_norms:
  "length a = length b \<Longrightarrow>
   snd (cosine_loop rnd a b (d, na, nb)) = (sum_squares rnd a na, sum_squares rnd b nb)"
proof (induction a b arbitrary: d na nb rule: list_induct2)
  case Nil
  show ?case by simp
next
  case (Cons x xs y ys)
  show ?case by (simp add: Cons.IH)
qed

lemma cosinePath_Elements:
  "cosinePath rnd a (Elements b) =
     (if length a \<noteq> length b then LengthMismatch
      else if n_is_zero (n_mul rnd (magnitude rnd a) (magnitude rnd b)) then ZeroDenominator
      else Quotient (fst (cosine_loop rnd a b (Fin 0, Fin 0, Fin 0)))
             (n_mul rnd (magnitude rnd a) (magnitude rnd b)))"
proof (cases "length a = length b")
  case True
  obtain d na nb where loop: "cosine_loop rnd a b (Fin 0, Fin 0, Fin 0) = (d, na, nb)"
    by (cases "cosine_loop rnd a b (Fin 0, Fin 0, Fin 0)")
  with cosine_loop_norms [OF True, of rnd "Fin 0" "Fin 0" "Fin 0"]
  have "na = sum_squares rnd a (Fin 0)" "nb = sum_squares rnd b (Fin 0)"
    by simp_all
  with True loop show ?thesis
    by (simp add: cosinePath_def magnitude_def Let_def)
next
  case False
  then show ?thesis by (simp add: cosinePath_def)
qed

lemma cosine_mismatch:
  "length a \<noteq> length b \<Longrightarrow> cosineSimilarity rnd a (Elements b) = Inr (Fin 0)"
  by (simp add: cosineSimilarity_def cosinePath_Elements)

lemma cosine_zero_magnitude:
  assumes "magnitude rnd a = Fin 0 \<and> magnitude rnd b = Fin y
    \<or> magnitude rnd a = Fin y \<and> magnitude rnd b = Fin 0"
  shows "cosineSimilarity rnd a (Elements b) = Inr (Fin 0)"
proof -
  from assms have "n_mul rnd (magnitude rnd a) (magnitude rnd b) = Fin 0"
    by (auto simp: fl_def)
  then show ?thesis
    by (simp add: cosineSimilarity_def cosinePath_Elements n_is_zero_def)
qed

lemma magnitude_Nil: "magnitude rnd [] = Fin 0"
  by (simp add: magnitude_def fl_def)

lemma cosine_empty: "cosineSimilarity rnd [] b = Inr s \<Longrightarrow> s = Fin 0"
proof (cases b)
  case Throws
  assume "cosineSimilarity rnd [] b = Inr s"
  with Throws show ?thesis by (simp add: cosineSimilarity_def cosinePath_def)
next
  case NoLength
  assume "cosineSimilarity rnd [] b = Inr s"
  with NoLength show ?thesis by (simp add: cosineSimilarity_def cosinePath_def)
next
  case (Elements bs)
  assume run: "cosineSimilarity rnd [] b = Inr s"
  show ?thesis
  proof (cases bs)
    case Nil
    have "cosineSimilarity rnd [] (Elements []) = Inr (Fin 0)"
      by (rule cosine_zero_magnitude [where y = 0]) (simp add: magnitude_Nil)
    with run Elements Nil show ?thesis by simp
  next
    case (Cons x xs)
    then have "cosineSimilarity rnd [] (Elements bs) = Inr (Fin 0)"
      by (simp add: cosine_mismatch)
    with run Elements show ?thesis by simp
  qed
qed

lemma cosine_unit_short:
  "cosineSimilarity rnd [Fin 1, Fin 0, Fin 0] (Elements [Fin 1]) = Inr (Fin 0)"
  by (simp add: cosine_mismatch)

lemma search_mixed_store:
  "searchSimilar exact [Fin 1, Fin 0, Fin 0] 0.85 5 mixed_store =
     (Inr [\<lparr>id_r = ''cache:a'', score = Fin 1, data = JEntry capital_entry\<rparr>], mixed_store)"
  by (simp add: searchSimilar_eq all_matches_def mixed_store_def matches_cache key_match_def
      value_match_def capital_entry_def short_entry_def cosine_unit_unit cosine_unit_short
      slice0_def sort_desc_def)

lemma search_mixed_store_zero:
  "searchSimilar exact [Fin 1, Fin 0, Fin 0] 0 5 mixed_store =
     (Inr [\<lparr>id_r = ''cache:a'', score = Fin 1, data = JEntry capital_entry\<rparr>,
           \<lparr>id_r = ''cache:short'', score = Fin 0, data = JEntry short_entry\<rparr>], mixed_store)"
  by (simp add: searchSimilar_eq all_matches_def mixed_store_def matches_cache key_match_def
      value_match_def capital_entry_def short_entry_def cosine_unit_unit cosine_unit_short
      slice0_def sort_desc_def)

lemma magnitude_zero_vector: "magnitude rnd [Fin 0] = Fin 0"
  by (simp add: magnitude_def fl_def)

lemma magnitude_unit_vector: "magnitude exact [Fin 1, Fin 0, Fin 0] = Fin 1"
  by (simp add: magnitude_def fl_def exact_def)

lemma cosine_overflow:
  "cosineSimilarity binary64_range [Fin 0] (Elements [Fin (10 ^ 200)]) = Inr NaN"
  by (simp add: cosineSimilarity_def cosinePath_def fl_def binary64_range_def n_is_zero_def
      Let_def signed_inf_def)

text \<open>
  C5, as the code has it. For every rounding of the arithmetic, \<open>cosineSimilarity\<close>
  returns 0 when the two vectors differ in length, and returns 0 when the magnitude it
  computes for one of them is zero and the one it computes for the other is a finite
  number; the division is reached only with a denominator that is not zero. A stored
  record whose embedding differs in length from the query does not make the search fail,
  and with a positive threshold it is not among the matches. (With a threshold of 0 or
  less its score 0 passes the filter; and against a vector whose sum of squares overflows,
  a zero vector gives \<open>NaN\<close>, not 0.)
\<close>

theorem cosine_total:
  "(length a \<noteq> length b \<longrightarrow> cosineSimilarity rnd a (Elements b) = Inr (Fin 0))
   \<and> (magnitude rnd a = Fin 0 \<and> magnitude rnd b = Fin y
        \<or> magnitude rnd a = Fin y \<and> magnitude rnd b = Fin 0
      \<longrightarrow> cosineSimilarity rnd a (Elements b) = Inr (Fin 0))
   \<and> (\<forall>n d. cosinePath rnd a (Elements b) = Quotient n d
        \<longrightarrow> \<not> n_is_zero d \<and> cosineSimilarity rnd a (Elements b) = Inr (n_div rnd n d))
   \<and> (online r \<and> 0 < threshold
        \<and> map_of (docs r) k = Some (Holds (Stringified v))
        \<and> embedding_of v = Elements bs \<and> length bs \<noteq> length a
      \<longrightarrow> (\<exists>ms. searchSimilar rnd a threshold limit r = (Inr ms, r)
            \<and> (\<forall>m \<in> set ms. id_r m \<noteq> k)))"
proof (intro conjI impI allI)
  assume "length a \<noteq> length b"
  then show "cosineSimilarity rnd a (Elements b) = Inr (Fin 0)" by (rule cosine_mismatch)
next
  assume "magnitude rnd a = Fin 0 \<and> magnitude rnd b = Fin y
    \<or> magnitude rnd a = Fin y \<and> magnitude rnd b = Fin 0"
  then show "cosineSimilarity rnd a (Elements b) = Inr (Fin 0)"
    by (rule cosine_zero_magnitude)
next
  fix n d
  assume "cosinePath rnd a (Elements b) = Quotient n d"
  then show "\<not> n_is_zero d"
    by (auto simp: cosinePath_Elements split: if_splits)
next
  fix n d
  assume "cosinePath rnd a (Elements b) = Quotient n d"
  then show "cosineSimilarity rnd a (Elements b) = Inr (n_div rnd n d)"
    by (simp add: cosineSimilarity_def)
next
  assume h: "online r \<and> 0 < threshold
        \<and> map_of (docs r) k = Some (Holds (Stringified v))
        \<and> embedding_of v = Elements bs \<and> length bs \<noteq> length a"
  let ?ms = "slice0 limit (sort_desc (all_matches rnd r a threshold))"
  have run: "searchSimilar rnd a threshold limit r = (Inr ?ms, r)"
    using h by (simp add: searchSimilar_eq)
  have "id_r m \<noteq> k" if "m \<in> set ?ms" for m
  proof
    assume "id_r m = k"
    from all_matches_cases [OF search_results_cases [OF run that]] this h
    have "data m = v" and "n_ge (score m) (Fin threshold)"
      and "cosineSimilarity rnd a (embedding_of (data m)) = Inr (score m)"
      by auto
    with h have "n_ge (Fin 0) (Fin threshold)"
      by (auto simp: cosine_mismatch)
    with h show False by simp
  qed
  with run show "\<exists>ms. searchSimilar rnd a threshold limit r = (Inr ms, r)
      \<and> (\<forall>m \<in> set ms. id_r m \<noteq> k)"
    by blast
qed

theorem cosine_total_witness:
  "length [Fin 1, Fin 0, Fin 0] \<noteq> length [Fin 1]
   \<and> cosineSimilarity exact [Fin 1, Fin 0, Fin 0] (Elements [Fin 1]) = Inr (Fin 0)
   \<and> magnitude exact [Fin 0] = Fin 0 \<and> magnitude exact [Fin 1, Fin 0, Fin 0] = Fin 1
   \<and> cosineSimilarity exact [Fin 0] (Elements [Fin 1, Fin 0, Fin 0]) = Inr (Fin 0)
   \<and> cosinePath exact [Fin 1, Fin 0, Fin 0] (Elements [Fin 1, Fin 0, Fin 0]) =
       Quotient (Fin 1) (Fin 1)
   \<and> \<not> n_is_zero (Fin 1)
   \<and> cosineSimilarity exact [Fin 1, Fin 0, Fin 0] (Elements [Fin 1, Fin 0, Fin 0]) =
       Inr (n_div exact (Fin 1) (Fin 1))
   \<and> online mixed_store
   \<and> map_of (docs mixed_store) ''cache:short'' = Some (Holds (Stringified (JEntry short_entry)))
   \<and> embedding_of (JEntry short_entry) = Elements [Fin 1]
   \<and> searchSimilar exact [Fin 1, Fin 0, Fin 0] 0.85 5 mixed_store =
        (Inr [\<lparr>id_r = ''cache:a'', score = Fin 1, data = JEntry capital_entry\<rparr>], mixed_store)
   \<and> id_r \<lparr>id_r = ''cache:a'', score = Fin 1, data = JEntry capital_entry\<rparr> \<noteq> ''cache:short''"
proof -
  have len: "length [Fin 1, Fin 0, Fin 0] \<noteq> length [Fin 1]" by simp
  have mag: "magnitude exact [Fin 0] = Fin 0 \<and> magnitude exact [Fin 1, Fin 0, Fin 0] = Fin 1"
    by (simp add: magnitude_zero_vector magnitude_unit_vector)
  have path: "cosinePath exact [Fin 1, Fin 0, Fin 0] (Elements [Fin 1, Fin 0, Fin 0]) =
      Quotient (Fin 1) (Fin 1)"
    by (simp add: cosinePath_def fl_def exact_def n_is_zero_def Let_def)
  have st: "online mixed_store \<and> (0 :: real) < 0.85
      \<and> map_of (docs mixed_store) ''cache:short'' = Some (Holds (Stringified (JEntry short_entry)))
      \<and> embedding_of (JEntry short_entry) = Elements [Fin 1]
      \<and> length [Fin 1] \<noteq> length [Fin 1, Fin 0, Fin 0]"
    by (simp add: mixed_store_def short_entry_def)
  note t1 = cosine_total [of "[Fin 1, Fin 0, Fin 0]" "[Fin 1]" exact 0 mixed_store "0.85"
      "''cache:short''" "JEntry short_entry" "[Fin 1]" 5]
  note t2 = cosine_total [of "[Fin 0]" "[Fin 1, Fin 0, Fin 0]" exact 1 mixed_store "0.85"
      "''cache:short''" "JEntry short_entry" "[Fin 1]" 5]
  note t3 = cosine_total [of "[Fin 1, Fin 0, Fin 0]" "[Fin 1, Fin 0, Fin 0]" exact 0 mixed_store
      "0.85" "''cache:short''" "JEntry short_entry" "[Fin 1]" 5]
  have a1: "cosineSimilarity exact [Fin 1, Fin 0, Fin 0] (Elements [Fin 1]) = Inr (Fin 0)"
    using t1 len by blast
  have a2: "cosineSimilarity exact [Fin 0] (Elements [Fin 1, Fin 0, Fin 0]) = Inr (Fin 0)"
    using t2 mag by blast
  have a3: "\<not> n_is_zero (Fin 1)
      \<and> cosineSimilarity exact [Fin 1, Fin 0, Fin 0] (Elements [Fin 1, Fin 0, Fin 0]) =
        Inr (n_div exact (Fin 1) (Fin 1))"
    using t3 path by blast
  from t1 st obtain ms
    where ms: "searchSimilar exact [Fin 1, Fin 0, Fin 0] 0.85 5 mixed_store = (Inr ms, mixed_store)"
    and ids: "\<forall>m \<in> set ms. id_r m \<noteq> ''cache:short''"
    by blast
  from ms search_mixed_store
  have "ms = [\<lparr>id_r = ''cache:a'', score = Fin 1, data = JEntry capital_entry\<rparr>]"
    by simp
  with ids
  have a4: "id_r \<lparr>id_r = ''cache:a'', score = Fin 1, data = JEntry capital_entry\<rparr> \<noteq> ''cache:short''"
    by simp
  from len a1 mag a2 path a3 st search_mixed_store a4 show ?thesis by blast
qed

text \<open>
  The claim as written fails in two ways. At threshold 0 the record whose embedding has
  another length than the query is returned as a match, with score 0. And the zero vector
  against a vector whose square overflows gives a denominator of zero times infinity,
  which is \<open>NaN\<close> and not zero, and so the similarity \<open>NaN\<close>.
\<close>

theorem mismatch_is_match_at_zero:
  "length (embedding short_entry) \<noteq> length [Fin 1, Fin 0, Fin 0]
   \<and> fst (searchSimilar exact [Fin 1, Fin 0, Fin 0] 0 5 mixed_store) =
       Inr [\<lparr>id_r = ''cache:a'', score = Fin 1, data = JEntry capital_entry\<rparr>,
            \<lparr>id_r = ''cache:short'', score = Fin 0, data = JEntry short_entry\<rparr>]
   \<and> magnitude binary64_range [Fin 0] = Fin 0
   \<and> cosineSimilarity binary64_range [Fin 0] (Elements [Fin (10 ^ 200)]) = Inr NaN"
  using search_mixed_store_zero cosine_overflow
  by (simp add: short_entry_def magnitude_zero_vector)

section \<open>store\<close>

lemma map_of_put_doc: "map_of (put_doc k v kvs) = (map_of kvs)(k \<mapsto> v)"
  by (induction kvs) (auto simp: fun_eq_iff)

lemma keys_put_doc:
  "map fst (put_doc k v kvs) =
     (if k \<in> set (map fst kvs) then map fst kvs else map fst kvs @ [k])"
  by (induction kvs) force+

lemma distinct_put_doc:
  "distinct (map fst kvs) \<Longrightarrow> distinct (map fst (put_doc k v kvs))"
  by (simp add: keys_put_doc)

lemma store_eq:
  "store i entry r =
     (if online r
      then (Inr (), r\<lparr>docs := put_doc (''cache:'' @ i) (Holds (Stringified (JEntry entry))) (docs r)\<rparr>)
      else (Inl RedisError, r))"
  by (simp add: store_def execute.simps JSON_stringify_def)

text \<open>
  C6, as the code has it. \<open>store\<close> does not look at the embedding: for every record, one
  with the empty embedding included, it succeeds whenever the Redis call does, and the
  record is then read back under the key \<open>cache:\<close> followed by the id. It fails only
  when the Redis call fails, and then the store is unchanged.
\<close>

theorem store_writes_every_record:
  "(online r \<longrightarrow>
      fst (store i entry r) = Inr ()
      \<and> fst (execute (JSON_GET (''cache:'' @ i)) (snd (store i entry r))) =
          Inr (Got (Some (JSON_stringify (JEntry entry)))))
   \<and> (\<not> online r \<longrightarrow> store i entry r = (Inl RedisError, r))"
  by (simp add: store_eq execute.simps map_of_put_doc JSON_stringify_def)

theorem store_writes_every_record_witness:
  "online empty_store
   \<and> fst (store ''x'' (capital_entry\<lparr>embedding := []\<rparr>) empty_store) = Inr ()
   \<and> fst (execute (JSON_GET ''cache:x'')
        (snd (store ''x'' (capital_entry\<lparr>embedding := []\<rparr>) empty_store))) =
       Inr (Got (Some (JSON_stringify (JEntry (capital_entry\<lparr>embedding := []\<rparr>)))))
   \<and> \<not> online (empty_store\<lparr>online := False\<rparr>)
   \<and> store ''x'' capital_entry (empty_store\<lparr>online := False\<rparr>) =
       (Inl RedisError, empty_store\<lparr>online := False\<rparr>)"
proof -
  have on: "online empty_store" by (simp add: empty_store_def)
  have off: "\<not> online (empty_store\<lparr>online := False\<rparr>)" by simp
  from store_writes_every_record [of empty_store "''x''" "capital_entry\<lparr>embedding := []\<rparr>"] on
  have a: "fst (store ''x'' (capital_entry\<lparr>embedding := []\<rparr>) empty_store) = Inr ()
      \<and> fst (execute (JSON_GET ''cache:x'')
          (snd (store ''x'' (capital_entry\<lparr>embedding := []\<rparr>) empty_store))) =
        Inr (Got (Some (JSON_stringify (JEntry (capital_entry\<lparr>embedding := []\<rparr>)))))"
    by simp
  from store_writes_every_record [of "empty_store\<lparr>online := False\<rparr>" "''x''" capital_entry] off
  have b: "store ''x'' capital_entry (empty_store\<lparr>online := False\<rparr>) =
      (Inl RedisError, empty_store\<lparr>online := False\<rparr>)"
    by blast
  from on a off b show ?thesis by blast
qed

text \<open>
  The claim as written fails: a record with the empty embedding is written, and the call
  returns without an error.
\<close>

theorem store_accepts_empty_embedding:
  "store ''x'' (capital_entry\<lparr>embedding := []\<rparr>) empty_store =
     (Inr (),
      \<lparr>online = True,
       docs = [(''cache:x'', Holds (Stringified (JEntry (capital_entry\<lparr>embedding := []\<rparr>))))]\<rparr>)"
  by (simp add: store_eq empty_store_def)

section \<open>PromptCache\<close>

text \<open>The first match of the search, as \<open>findSimilarCache\<close> reports it.\<close>

lemma findSimilarCache_eq:
  "findSimilarCache rnd c p w =
     (case ai c p of
        AiThrows \<Rightarrow> (Inl AIError, w\<lparr>embedded := embedded w @ [p]\<rparr>)
      | AiData v \<Rightarrow>
          (if online (redis w)
           then case slice0 1 (sort_desc
                  (all_matches rnd (redis w) (map Fin v) (similarityThreshold c))) of
                  [] \<Rightarrow> Inr None
                | best # rest \<Rightarrow> Inr (Some (data best, score best))
           else Inl RedisError,
           w\<lparr>embedded := embedded w @ [p]\<rparr>))"
  by (simp add: findSimilarCache_def generateEmbedding_def searchSimilar_eq Let_def
      split: ai_reply.splits list.splits)

lemma cacheResponse_eq:
  "cacheResponse c p resp mdl w =
     (case ai c p of
        AiThrows \<Rightarrow> (Inl AIError, w\<lparr>embedded := embedded w @ [p]\<rparr>)
      | AiData v \<Rightarrow>
          (if online (redis w)
           then (Inr (),
                 w\<lparr>embedded := embedded w @ [p],
                   redis := (redis w)\<lparr>docs :=
                     put_doc (''cache:'' @ generateId p (clock w))
                       (Holds (Stringified (JEntry
                          \<lparr>prompt = p, embedding = v, response = resp,
                           timestamp = clock w, model = mdl\<rparr>)))
                       (docs (redis w))\<rparr>\<rparr>)
           else (Inl RedisError, w\<lparr>embedded := embedded w @ [p]\<rparr>)))"
  by (simp add: cacheResponse_def generateEmbedding_def store_eq Let_def
      split: ai_reply.splits)

lemma findSimilarCache_redis: "redis (snd (findSimilarCache rnd c p w)) = redis w"
  by (simp add: findSimilarCache_eq split: ai_reply.splits)

lemma findSimilarCache_embedded:
  "embedded (snd (findSimilarCache rnd c p w)) = embedded w @ [p]"
  by (simp add: findSimilarCache_eq split: ai_reply.splits)

lemma cacheResponse_embedded:
  "embedded (snd (cacheResponse c p resp mdl w)) = embedded w @ [p]"
  by (simp add: cacheResponse_eq split: ai_reply.splits)

lemma findSimilarCache_cong:
  "redis w = redis w' \<Longrightarrow>
   fst (findSimilarCache rnd c p w) = fst (findSimilarCache rnd c p w')"
  by (simp add: findSimilarCache_eq split: ai_reply.splits)

lemma funpow_lookup_redis:
  "redis (((\<lambda>u. snd (findSimilarCache rnd c p u)) ^^ n) w) = redis w"
  by (induction n) (simp_all add: findSimilarCache_redis)

lemma miss_when_nothing_reaches:
  assumes "online (redis w)" and "ai c p = AiData v"
    and "\<forall>k x s. (k, Holds (Stringified x)) \<in> set (docs (redis w)) \<and> prefix ''cache:'' k
          \<and> cosineSimilarity rnd (map Fin v) (embedding_of x) = Inr s
          \<longrightarrow> \<not> n_ge s (Fin (similarityThreshold c))"
  shows "fst (findSimilarCache rnd c p w) = Inr None"
proof -
  have "all_matches rnd (redis w) (map Fin v) (similarityThreshold c) = []"
  proof (rule ccontr)
    assume "all_matches rnd (redis w) (map Fin v) (similarityThreshold c) \<noteq> []"
    then obtain m
      where "m \<in> set (all_matches rnd (redis w) (map Fin v) (similarityThreshold c))"
      by (cases "all_matches rnd (redis w) (map Fin v) (similarityThreshold c)") auto
    note c = all_matches_cases [OF this]
    from c have "(id_r m, Holds (Stringified (data m))) \<in> set (docs (redis w))"
      by (simp add: map_of_SomeD)
    with c assms(3) show False by blast
  qed
  with assms(1,2) show ?thesis
    by (simp add: findSimilarCache_eq slice0_def sort_desc_def)
qed

lemma generateId_hi: "generateId ''hi'' 0 = ''3329_0''"
  by (simp add: generateId_def)

lemma lookup_other_capital:
  "fst (findSimilarCache exact other_cache ''Berlin?'' capital_world) = Inr None"
  by (simp add: findSimilarCache_eq other_cache_def capital_world_def capital_store_def
      all_matches_def matches_cache key_match_def value_match_def capital_entry_def
      cosine_unit_other slice0_def sort_desc_def)

lemma lookup_empty_capital:
  "fst (findSimilarCache exact empty_cache ''Paris?'' capital_world) = Inr None"
  by (simp add: findSimilarCache_eq empty_cache_def capital_world_def capital_store_def
      all_matches_def matches_cache key_match_def value_match_def capital_entry_def
      cosine_mismatch slice0_def sort_desc_def)

section \<open>Failures of the embedding provider\<close>

text \<open>
  C7, as the code has it. When the embedding provider throws, \<open>findSimilarCache\<close> fails
  with that error and reports neither a hit nor a miss. The shape of the vector is not
  checked: an empty vector goes to the search like any other, and with a positive
  threshold and a reachable store the outcome is a plain miss.
\<close>

theorem lookup_embedding_failure:
  "(ai c p = AiThrows \<longrightarrow> fst (findSimilarCache rnd c p w) = Inl AIError)
   \<and> (ai c p = AiData [] \<and> online (redis w) \<and> 0 < similarityThreshold c
        \<longrightarrow> fst (findSimilarCache rnd c p w) = Inr None)"
proof (intro conjI impI)
  assume "ai c p = AiThrows"
  then show "fst (findSimilarCache rnd c p w) = Inl AIError"
    by (simp add: findSimilarCache_eq)
next
  assume h: "ai c p = AiData [] \<and> online (redis w) \<and> 0 < similarityThreshold c"
  have "\<not> n_ge s (Fin (similarityThreshold c))"
    if "cosineSimilarity rnd (map Fin []) (embedding_of x) = Inr s" for x s
  proof -
    from that have "s = Fin 0"
      by (simp add: cosine_empty)
    with h show ?thesis by simp
  qed
  with h show "fst (findSimilarCache rnd c p w) = Inr None"
    by (intro miss_when_nothing_reaches [where v = "[]"]) blast+
qed

theorem lookup_embedding_failure_witness:
  "ai failing_cache ''Paris?'' = AiThrows
   \<and> fst (findSimilarCache exact failing_cache ''Paris?'' capital_world) = Inl AIError
   \<and> ai empty_cache ''Paris?'' = AiData []
   \<and> online (redis capital_world)
   \<and> 0 < similarityThreshold empty_cache
   \<and> fst (findSimilarCache exact empty_cache ''Paris?'' capital_world) = Inr None"
proof -
  have a: "ai failing_cache ''Paris?'' = AiThrows" by (simp add: failing_cache_def)
  have b: "ai empty_cache ''Paris?'' = AiData [] \<and> online (redis capital_world)
      \<and> 0 < similarityThreshold empty_cache"
    by (simp add: empty_cache_def capital_world_def capital_store_def)
  from lookup_embedding_failure [of failing_cache "''Paris?''" exact capital_world] a
  have c: "fst (findSimilarCache exact failing_cache ''Paris?'' capital_world) = Inl AIError"
    by blast
  from lookup_embedding_failure [of empty_cache "''Paris?''" exact capital_world] b
  have d: "fst (findSimilarCache exact empty_cache ''Paris?'' capital_world) = Inr None"
    by blast
  from a b c d show ?thesis by blast
qed

text \<open>
  The claim as written fails: the provider answers with the empty vector, and the lookup
  reports a miss, not an error.
\<close>

theorem empty_embedding_is_silent_miss:
  "ai empty_cache ''Paris?'' = AiData []
   \<and> fst (findSimilarCache exact empty_cache ''Paris?'' capital_world) = Inr None"
  using lookup_empty_capital by (simp add: empty_cache_def)

section \<open>Lookups and the store\<close>

text \<open>
  C9. A lookup leaves the record collection as it was, and any number of further
  identical lookups have the outcome of the first. When the store is reachable and no
  record stored under a key of the cache has a similarity with the embedding of the
  prompt that reaches the threshold, the lookup is a miss, and it is still a miss after
  any number of identical lookups.
\<close>

theorem lookup_leaves_store:
  "redis (snd (findSimilarCache rnd c p w)) = redis w
   \<and> fst (findSimilarCache rnd c p (((\<lambda>u. snd (findSimilarCache rnd c p u)) ^^ n) w)) =
       fst (findSimilarCache rnd c p w)
   \<and> (online (redis w) \<and> ai c p = AiData v
        \<and> (\<forall>k x s. (k, Holds (Stringified x)) \<in> set (docs (redis w)) \<and> prefix ''cache:'' k
              \<and> cosineSimilarity rnd (map Fin v) (embedding_of x) = Inr s
              \<longrightarrow> \<not> n_ge s (Fin (similarityThreshold c)))
      \<longrightarrow> fst (findSimilarCache rnd c p w) = Inr None
        \<and> fst (findSimilarCache rnd c p
              (((\<lambda>u. snd (findSimilarCache rnd c p u)) ^^ n) w)) = Inr None)"
proof -
  have "redis (((\<lambda>u. snd (findSimilarCache rnd c p u)) ^^ n) w) = redis w"
    by (rule funpow_lookup_redis)
  then have same: "fst (findSimilarCache rnd c p
        (((\<lambda>u. snd (findSimilarCache rnd c p u)) ^^ n) w)) =
      fst (findSimilarCache rnd c p w)"
    by (rule findSimilarCache_cong)
  have "fst (findSimilarCache rnd c p w) = Inr None"
    if "online (redis w) \<and> ai c p = AiData v
        \<and> (\<forall>k x s. (k, Holds (Stringified x)) \<in> set (docs (redis w)) \<and> prefix ''cache:'' k
              \<and> cosineSimilarity rnd (map Fin v) (embedding_of x) = Inr s
              \<longrightarrow> \<not> n_ge s (Fin (similarityThreshold c)))"
    using that by (intro miss_when_nothing_reaches [where v = v]) blast+
  with same show ?thesis
    by (simp add: findSimilarCache_redis)
qed

theorem lookup_leaves_store_witness:
  "online (redis capital_world) \<and> ai other_cache ''Berlin?'' = AiData [0, 1, 0]
   \<and> cosineSimilarity exact (map Fin [0, 1, 0]) (embedding_of (JEntry capital_entry)) =
       Inr (Fin 0)
   \<and> \<not> n_ge (Fin 0) (Fin (similarityThreshold other_cache))
   \<and> redis (snd (findSimilarCache exact other_cache ''Berlin?'' capital_world)) =
       redis capital_world
   \<and> fst (findSimilarCache exact other_cache ''Berlin?'' capital_world) = Inr None
   \<and> fst (findSimilarCache exact other_cache ''Berlin?''
        (((\<lambda>u. snd (findSimilarCache exact other_cache ''Berlin?'' u)) ^^ 3) capital_world)) =
       Inr None"
proof -
  have a: "online (redis capital_world)" "ai other_cache ''Berlin?'' = AiData [0, 1, 0]"
    by (simp_all add: capital_world_def capital_store_def other_cache_def)
  have b: "cosineSimilarity exact (map Fin [0, 1, 0]) (embedding_of (JEntry capital_entry)) =
      Inr (Fin 0)"
    by (simp add: capital_entry_def cosine_unit_other)
  have c: "\<not> n_ge (Fin 0) (Fin (similarityThreshold other_cache))"
    by (simp add: other_cache_def)
  have d: "\<forall>k x s. (k, Holds (Stringified x)) \<in> set (docs (redis capital_world))
        \<and> prefix ''cache:'' k
        \<and> cosineSimilarity exact (map Fin [0, 1, 0]) (embedding_of x) = Inr s
        \<longrightarrow> \<not> n_ge s (Fin (similarityThreshold other_cache))"
    using b c by (auto simp: capital_world_def capital_store_def)
  from lookup_leaves_store [of exact other_cache "''Berlin?''" capital_world 3 "[0, 1, 0]"] a d
  have "redis (snd (findSimilarCache exact other_cache ''Berlin?'' capital_world)) =
       redis capital_world
   \<and> fst (findSimilarCache exact other_cache ''Berlin?'' capital_world) = Inr None
   \<and> fst (findSimilarCache exact other_cache ''Berlin?''
        (((\<lambda>u. snd (findSimilarCache exact other_cache ''Berlin?'' u)) ^^ 3) capital_world)) =
       Inr None"
    by blast
  with a b c show ?thesis by blast
qed

section \<open>Calls of the embedding provider\<close>

lemma chat_miss:
  assumes "chat rnd env p mdl w = (Ok_fresh txt t, w')"
  shows "embedded w' = embedded w @ [p, p]"
proof -
  let ?c = "PromptCache_new env"
  from assms have p: "p \<noteq> []"
    by (auto simp: chat_def)
  obtain res w1 where l: "findSimilarCache rnd ?c p w = (res, w1)"
    by (cases "findSimilarCache rnd ?c p w")
  from findSimilarCache_embedded [of rnd ?c p w] l
  have e1: "embedded w1 = embedded w @ [p]" by simp
  from assms p l obtain u where
    s: "cacheResponse ?c p txt mdl (w1\<lparr>misses := misses w1 + 1\<rparr>) = (Inr u, w')"
    by (auto simp: chat_def Let_def split: sum.splits option.splits prod.splits)
  from cacheResponse_embedded [of ?c p "txt" mdl "w1\<lparr>misses := misses w1 + 1\<rparr>"] s
  have "embedded w' = embedded w1 @ [p]" by simp
  with e1 show ?thesis by simp
qed

lemma chat_hi:
  "chat exact unit_env ''hi'' ''llama'' fresh_world =
     (Ok_fresh ''Paris'' 0,
      \<lparr>redis = \<lparr>online = True,
                docs = [(''cache:3329_0'', Holds (Stringified (JEntry
                          \<lparr>prompt = ''hi'', embedding = [1, 0, 0], response = ''Paris'',
                           timestamp = 0, model = ''llama''\<rparr>)))]\<rparr>,
       embedded = [''hi'', ''hi''], clock = 0, hits = 0, misses = 1\<rparr>)"
  by (simp add: chat_def PromptCache_new_def unit_env_def fresh_world_def empty_store_def
      findSimilarCache_eq cacheResponse_eq all_matches_def slice0_def sort_desc_def
      generateId_hi)

text \<open>
  C4, as the code has it. A miss of \<open>findSimilarCache\<close> is \<open>null\<close> and carries no
  embedding, and \<open>cacheResponse\<close> computes the embedding of its prompt again: in a cycle
  of a miss followed by the store of the same prompt, and so in every \<open>/chat\<close> request that
  answers with a fresh response, the embedding provider is called exactly twice for the
  prompt.
\<close>

theorem miss_cycle_embeds_twice:
  "(fst (findSimilarCache rnd c p w) = Inr None \<longrightarrow>
      embedded (snd (cacheResponse c p resp mdl (snd (findSimilarCache rnd c p w)))) =
        embedded w @ [p, p])
   \<and> (chat rnd env p mdl w = (Ok_fresh txt t, w') \<longrightarrow> embedded w' = embedded w @ [p, p])"
  by (simp add: cacheResponse_embedded findSimilarCache_embedded chat_miss)

theorem miss_cycle_embeds_twice_witness:
  "fst (findSimilarCache exact other_cache ''Berlin?'' capital_world) = Inr None
   \<and> embedded (snd (cacheResponse other_cache ''Berlin?'' ''Yes'' ''llama''
        (snd (findSimilarCache exact other_cache ''Berlin?'' capital_world)))) =
       embedded capital_world @ [''Berlin?'', ''Berlin?'']
   \<and> fst (chat exact unit_env ''hi'' ''llama'' fresh_world) = Ok_fresh ''Paris'' 0
   \<and> embedded (snd (chat exact unit_env ''hi'' ''llama'' fresh_world)) =
       embedded fresh_world @ [''hi'', ''hi'']"
proof -
  have c: "chat exact unit_env ''hi'' ''llama'' fresh_world =
      (Ok_fresh ''Paris'' 0, snd (chat exact unit_env ''hi'' ''llama'' fresh_world))"
    by (simp add: chat_hi)
  from miss_cycle_embeds_twice [of exact other_cache "''Berlin?''" capital_world "''Yes''"
      "''llama''" unit_env "''Paris''" 0 "snd (chat exact unit_env ''hi'' ''llama'' fresh_world)"]
    lookup_other_capital
  have "embedded (snd (cacheResponse other_cache ''Berlin?'' ''Yes'' ''llama''
        (snd (findSimilarCache exact other_cache ''Berlin?'' capital_world)))) =
       embedded capital_world @ [''Berlin?'', ''Berlin?'']"
    by blast
  moreover
  from miss_cycle_embeds_twice [of exact unit_cache "''hi''" fresh_world "''Paris''" "''llama''"
      unit_env "''Paris''" 0 "snd (chat exact unit_env ''hi'' ''llama'' fresh_world)"] c
  have "embedded (snd (chat exact unit_env ''hi'' ''llama'' fresh_world)) =
      embedded fresh_world @ [''hi'', ''hi'']"
    by blast
  moreover have "fst (chat exact unit_env ''hi'' ''llama'' fresh_world) = Ok_fresh ''Paris'' 0"
    by (simp add: chat_hi)
  ultimately show ?thesis using lookup_other_capital by blast
qed

text \<open>
  The claim as written fails: one \<open>/chat\<close> request on the empty store is a miss followed by
  a store, and the prompt is sent to the embedding provider twice.
\<close>

theorem chat_miss_embeds_prompt_twice:
  "fst (chat exact unit_env ''hi'' ''llama'' fresh_world) = Ok_fresh ''Paris'' 0
   \<and> embedded (snd (chat exact unit_env ''hi'' ''llama'' fresh_world)) = [''hi'', ''hi'']"
  by (simp add: chat_hi)

section \<open>Records that cannot be read\<close>














section \<open>Keys and ids\<close>

lemma slice0_all: "int (length xs) \<le> limit \<Longrightarrow> slice0 limit xs = xs"
  by (simp add: slice0_def)

lemma key_in_put_doc: "k \<in> set (map fst (put_doc k v kvs))"
  by (simp add: keys_put_doc)

lemma length_all_matches: "length (all_matches rnd r emb threshold) \<le> length (docs r)"
proof -
  have "length (map id_r (all_matches rnd r emb threshold)) \<le> length (map fst (docs r))"
    using subseq_all_matches by (rule list_emb_length)
  then show ?thesis by simp
qed

lemma held_key_matches:
  assumes "online r" and "map_of (docs r) k = Some (Holds (Stringified v))"
    and "k \<in> set (map fst (docs r))" and "prefix ''cache:'' k"
    and "cosineSimilarity rnd emb (embedding_of v) = Inr s" and "n_ge s (Fin threshold)"
  shows "\<lparr>id_r = k, score = s, data = v\<rparr> \<in> set (all_matches rnd r emb threshold)"
proof -
  let ?M = "\<lparr>id_r = k, score = s, data = v\<rparr>"
  from assms(1,2,5,6) have "key_match rnd r emb threshold k = [?M]"
    by (simp add: key_match_def value_match_def)
  moreover from assms(3,4) have "k \<in> set (filter (matches ''cache:*'') (map fst (docs r)))"
    by (simp add: matches_cache del: set_map)
  ultimately have "\<exists>k \<in> set (filter (matches ''cache:*'') (map fst (docs r))).
      ?M \<in> set (key_match rnd r emb threshold k)"
    by (intro bexI [of _ k]) simp_all
  then show ?thesis
    by (simp only: all_matches_def set_concat set_map UN_iff bex_simps image_iff)
qed

text \<open>
  C10. \<open>store(i, e)\<close> persists the record under the key \<open>cache:\<close> followed by \<open>i\<close>, which is
  never \<open>i\<close> itself. Every match that \<open>searchSimilar\<close> then returns has an id that starts
  with \<open>cache:\<close>; a match with the key of the record is the match of the record, and the
  record is reported under that key whenever its similarity reaches the threshold and
  the limit does not cut it off.
\<close>

theorem search_reports_prefixed_keys:
  assumes "online r"
    and "searchSimilar rnd emb threshold limit (snd (store i e r)) = (Inr ms, r')"
  shows "fst (store i e r) = Inr ()
    \<and> map_of (docs (snd (store i e r))) (''cache:'' @ i) = Some (Holds (Stringified (JEntry e)))
    \<and> ''cache:'' @ i \<noteq> i
    \<and> (\<forall>m \<in> set ms. prefix ''cache:'' (id_r m)
          \<and> (id_r m = ''cache:'' @ i \<longrightarrow>
               m = \<lparr>id_r = ''cache:'' @ i, score = score m, data = JEntry e\<rparr>
               \<and> cosineSimilarity rnd emb (Elements (map Fin (embedding e))) = Inr (score m)))
    \<and> (cosineSimilarity rnd emb (Elements (map Fin (embedding e))) = Inr s
        \<and> n_ge s (Fin threshold) \<and> int (length (docs (snd (store i e r)))) \<le> limit
          \<longrightarrow> \<lparr>id_r = ''cache:'' @ i, score = s, data = JEntry e\<rparr> \<in> set ms)"
proof -
  let ?k = "''cache:'' @ i"
  let ?r = "snd (store i e r)"
  have ok: "fst (store i e r) = Inr ()" and on: "online ?r"
    and held: "map_of (docs ?r) ?k = Some (Holds (Stringified (JEntry e)))"
    and key: "?k \<in> set (map fst (docs ?r))"
    using assms(1) by (simp_all add: store_eq map_of_put_doc key_in_put_doc del: set_map)
  have neq: "?k \<noteq> i"
  proof
    assume "?k = i"
    then have "length ?k = length i" by simp
    then show False by simp
  qed
  have each: "prefix ''cache:'' (id_r m)
      \<and> (id_r m = ?k \<longrightarrow> m = \<lparr>id_r = ?k, score = score m, data = JEntry e\<rparr>
           \<and> cosineSimilarity rnd emb (Elements (map Fin (embedding e))) = Inr (score m))"
    if "m \<in> set ms" for m
  proof -
    note c = all_matches_cases [OF search_results_cases [OF assms(2) that]]
    from c held have "id_r m = ?k \<longrightarrow> m = \<lparr>id_r = ?k, score = score m, data = JEntry e\<rparr>
        \<and> cosineSimilarity rnd emb (Elements (map Fin (embedding e))) = Inr (score m)"
      by (cases m) auto
    with c show ?thesis by simp
  qed
  have shown: "\<lparr>id_r = ?k, score = s, data = JEntry e\<rparr> \<in> set ms"
    if h: "cosineSimilarity rnd emb (Elements (map Fin (embedding e))) = Inr s
        \<and> n_ge s (Fin threshold) \<and> int (length (docs ?r)) \<le> limit"
  proof -
    from h have "cosineSimilarity rnd emb (embedding_of (JEntry e)) = Inr s"
      by simp
    with on held key h
    have "\<lparr>id_r = ?k, score = s, data = JEntry e\<rparr> \<in> set (all_matches rnd ?r emb threshold)"
      by (intro held_key_matches) simp_all
    moreover from h length_all_matches [of rnd ?r emb threshold]
    have "int (length (sort_desc (all_matches rnd ?r emb threshold))) \<le> limit"
      by (simp add: sort_desc_def)
    then have "slice0 limit (sort_desc (all_matches rnd ?r emb threshold)) =
        sort_desc (all_matches rnd ?r emb threshold)"
      by (rule slice0_all)
    moreover from assms(2) on
    have "ms = slice0 limit (sort_desc (all_matches rnd ?r emb threshold))"
      by (auto simp: searchSimilar_eq)
    ultimately show ?thesis by (simp add: set_sort_desc)
  qed
  from ok held neq each shown show ?thesis by blast
qed

theorem search_reports_prefixed_keys_witness:
  "online empty_store
   \<and> searchSimilar exact [Fin 1, Fin 0, Fin 0] 0.85 1 (snd (store ''a'' capital_entry empty_store)) =
       (Inr [\<lparr>id_r = ''cache:a'', score = Fin 1, data = JEntry capital_entry\<rparr>], capital_store)
   \<and> cosineSimilarity exact [Fin 1, Fin 0, Fin 0] (Elements (map Fin (embedding capital_entry))) =
       Inr (Fin 1)
   \<and> n_ge (Fin 1) (Fin 0.85)
   \<and> fst (store ''a'' capital_entry empty_store) = Inr ()
   \<and> map_of (docs (snd (store ''a'' capital_entry empty_store))) ''cache:a'' =
       Some (Holds (Stringified (JEntry capital_entry)))
   \<and> prefix ''cache:'' (id_r \<lparr>id_r = ''cache:a'', score = Fin 1, data = JEntry capital_entry\<rparr>)
   \<and> \<lparr>id_r = ''cache:a'', score = Fin 1, data = JEntry capital_entry\<rparr>
       \<in> set [\<lparr>id_r = ''cache:a'', score = Fin 1, data = JEntry capital_entry\<rparr>]"
proof -
  have on: "online empty_store" by (simp add: empty_store_def)
  have st: "snd (store ''a'' capital_entry empty_store) = capital_store"
    by (simp add: store_eq empty_store_def capital_store_def)
  have run: "searchSimilar exact [Fin 1, Fin 0, Fin 0] 0.85 1
      (snd (store ''a'' capital_entry empty_store)) =
      (Inr [\<lparr>id_r = ''cache:a'', score = Fin 1, data = JEntry capital_entry\<rparr>], capital_store)"
    by (simp only: st search_capital_store)
  have pre: "cosineSimilarity exact [Fin 1, Fin 0, Fin 0]
        (Elements (map Fin (embedding capital_entry))) = Inr (Fin 1)
      \<and> n_ge (Fin 1) (Fin 0.85)
      \<and> int (length (docs (snd (store ''a'' capital_entry empty_store)))) \<le> 1"
    unfolding st by (simp add: capital_store_def capital_entry_def cosine_unit_unit)
  from search_reports_prefixed_keys [OF on run, of "Fin 1"] pre on run show ?thesis
    by simp
qed

section \<open>Store, then look up\<close>

lemma sort_desc_Nil: "sort_desc xs = [] \<longleftrightarrow> xs = []"
proof -
  have "length (sort_desc xs) = length xs"
    by (simp add: sort_desc_def)
  then show ?thesis
    by (metis length_0_conv)
qed

lemma hd_sort_desc:
  assumes "xs \<noteq> []"
  shows "hd (sort_desc xs) \<in> set xs
    \<and> (\<forall>x \<in> set xs. down (score (hd (sort_desc xs))) \<le> down (score x))"
proof -
  from assms have "sort_desc xs \<noteq> []"
    by (simp add: sort_desc_Nil)
  then obtain y ys where ys: "sort_desc xs = y # ys"
    by (cases "sort_desc xs") auto
  from sorted_sort_desc [of xs] ys have "\<forall>x \<in> set ys. down (score y) \<le> down (score x)"
    by simp
  moreover from ys have "set xs = insert y (set ys)"
    using set_sort_desc [of xs] by simp
  ultimately show ?thesis
    using ys by auto
qed

lemma slice0_one: "xs \<noteq> [] \<Longrightarrow> slice0 1 xs = [hd xs]"
  by (cases xs) (simp_all add: slice0_def)

lemma generateId_hi_1: "generateId ''hi'' (Suc 0) = ''3329_1''"
  by (simp add: generateId_def)

lemma cosine_zero_zero:
  "cosineSimilarity exact [Fin 0, Fin 0, Fin 0] (Elements [Fin 0, Fin 0, Fin 0]) = Inr (Fin 0)"
  by (simp add: cosineSimilarity_def cosinePath_def fl_def exact_def n_is_zero_def Let_def)

lemma cosine_other_other:
  "cosineSimilarity exact [Fin 0, Fin 1, Fin 0] (Elements [Fin 0, Fin 1, Fin 0]) = Inr (Fin 1)"
  by (simp add: cosineSimilarity_def cosinePath_def fl_def exact_def n_is_zero_def Let_def)

text \<open>
  C1, as the code has it. Let the store be reachable, let the similarity \<open>s\<close> that the
  code computes between the embedding of \<open>p\<close> and itself reach the threshold, and let the
  similarity it computes for every other record of the cache be below \<open>s\<close>. Then
  \<open>cacheResponse\<close> for \<open>p\<close> followed by \<open>findSimilarCache\<close> for \<open>p\<close> is a hit with
  similarity \<open>s\<close> whose response is the one stored. (The similarity \<open>s\<close> is 0 for an
  embedding of zeros, and the rounding of the arithmetic can leave it just below 1.)
\<close>

theorem round_trip:
  assumes "online (redis w)" and "ai c p = AiData v"
    and "cosineSimilarity rnd (map Fin v) (Elements (map Fin v)) = Inr s"
    and "n_ge s (Fin (similarityThreshold c))"
    and "\<forall>k x t. (k, Holds (Stringified x)) \<in> set (docs (redis w))
          \<and> prefix ''cache:'' k \<and> k \<noteq> ''cache:'' @ generateId p (clock w)
          \<and> cosineSimilarity rnd (map Fin v) (embedding_of x) = Inr t
          \<longrightarrow> \<not> n_ge t s"
  shows "fst (cacheResponse c p resp mdl w) = Inr ()
    \<and> fst (findSimilarCache rnd c p (snd (cacheResponse c p resp mdl w))) =
        Inr (Some (JEntry \<lparr>prompt = p, embedding = v, response = resp,
                            timestamp = clock w, model = mdl\<rparr>, s))"
proof -
  let ?k = "''cache:'' @ generateId p (clock w)"
  let ?E = "\<lparr>prompt = p, embedding = v, response = resp, timestamp = clock w, model = mdl\<rparr>"
  let ?M = "\<lparr>id_r = ?k, score = s, data = JEntry ?E\<rparr>"
  let ?r = "(redis w)\<lparr>docs := put_doc ?k (Holds (Stringified (JEntry ?E))) (docs (redis w))\<rparr>"
  let ?all = "all_matches rnd ?r (map Fin v) (similarityThreshold c)"
  have stored: "cacheResponse c p resp mdl w =
      (Inr (), w\<lparr>embedded := embedded w @ [p], redis := ?r\<rparr>)"
    using assms(1,2) by (simp add: cacheResponse_eq)
  have on: "online ?r"
    using assms(1) by simp
  have held: "map_of (docs ?r) ?k = Some (Holds (Stringified (JEntry ?E)))"
    by (simp add: map_of_put_doc)
  have self: "cosineSimilarity rnd (map Fin v) (embedding_of (JEntry ?E)) = Inr s"
    using assms(3) by simp
  have key: "?k \<in> set (map fst (docs ?r))"
    using key_in_put_doc [of ?k "Holds (Stringified (JEntry ?E))" "docs (redis w)"]
    by simp
  have new: "?M \<in> set ?all"
    using on held key _ self assms(4) by (rule held_key_matches) simp
  have others: "m = ?M \<or> \<not> n_ge (score m) s" if "m \<in> set ?all" for m
  proof (cases "id_r m = ?k")
    case True
    with all_matches_cases [OF that] held self have "m = ?M"
      by (cases m) auto
    then show ?thesis ..
  next
    case False
    note c = all_matches_cases [OF that]
    from c False
    have "map_of (docs (redis w)) (id_r m) = Some (Holds (Stringified (data m)))"
      by (simp add: map_of_put_doc)
    then have "(id_r m, Holds (Stringified (data m))) \<in> set (docs (redis w))"
      by (rule map_of_SomeD)
    with assms(5) False c have "\<not> n_ge (score m) s"
      by blast
    then show ?thesis ..
  qed
  from new have ne: "?all \<noteq> []" by auto
  let ?top = "hd (sort_desc ?all)"
  from hd_sort_desc [OF ne] new have top_in: "?top \<in> set ?all"
      and "down (score ?top) \<le> down (score ?M)"
    by blast+
  moreover from all_matches_cases [OF top_in] have "score ?top \<noteq> NaN"
    using n_ge_not_NaN by blast
  moreover from assms(4) have "s \<noteq> NaN"
    using n_ge_not_NaN by blast
  ultimately have "n_ge (score ?top) s"
    by (simp add: down_le_iff)
  with others [OF top_in] have top: "?top = ?M"
    by blast
  from ne have "sort_desc ?all \<noteq> []"
    by (simp only: sort_desc_Nil not_False_eq_True)
  then have "slice0 1 (sort_desc ?all) = [?top]"
    by (rule slice0_one)
  then have "slice0 1 (sort_desc ?all) = [?M]"
    unfolding top .
  then have "fst (findSimilarCache rnd c p (w\<lparr>embedded := embedded w @ [p], redis := ?r\<rparr>)) =
      Inr (Some (JEntry ?E, s))"
    using assms(2) on by (simp add: findSimilarCache_eq)
  with stored show ?thesis by simp
qed

theorem round_trip_witness:
  "online (redis capital_world) \<and> ai other_cache ''hi'' = AiData [0, 1, 0]
   \<and> cosineSimilarity exact (map Fin [0, 1, 0]) (Elements (map Fin [0, 1, 0])) = Inr (Fin 1)
   \<and> n_ge (Fin 1) (Fin (similarityThreshold other_cache))
   \<and> cosineSimilarity exact (map Fin [0, 1, 0]) (embedding_of (JEntry capital_entry)) =
       Inr (Fin 0)
   \<and> \<not> n_ge (Fin 0) (Fin 1)
   \<and> fst (cacheResponse other_cache ''hi'' ''Hello'' ''llama'' capital_world) = Inr ()
   \<and> fst (findSimilarCache exact other_cache ''hi''
        (snd (cacheResponse other_cache ''hi'' ''Hello'' ''llama'' capital_world))) =
       Inr (Some (JEntry \<lparr>prompt = ''hi'', embedding = [0, 1, 0], response = ''Hello'',
                           timestamp = clock capital_world, model = ''llama''\<rparr>, Fin 1))"
proof -
  have a: "online (redis capital_world)" "ai other_cache ''hi'' = AiData [0, 1, 0]"
      "cosineSimilarity exact (map Fin [0, 1, 0]) (Elements (map Fin [0, 1, 0])) = Inr (Fin 1)"
      "n_ge (Fin 1) (Fin (similarityThreshold other_cache))"
    by (simp_all add: capital_world_def capital_store_def other_cache_def cosine_other_other)
  have b: "cosineSimilarity exact (map Fin [0, 1, 0]) (embedding_of (JEntry capital_entry)) =
      Inr (Fin 0)"
    by (simp add: capital_entry_def cosine_unit_other)
  have c: "\<not> n_ge (Fin 0) (Fin 1)" by simp
  have d: "\<forall>k x t. (k, Holds (Stringified x)) \<in> set (docs (redis capital_world))
          \<and> prefix ''cache:'' k \<and> k \<noteq> ''cache:'' @ generateId ''hi'' (clock capital_world)
          \<and> cosineSimilarity exact (map Fin [0, 1, 0]) (embedding_of x) = Inr t
          \<longrightarrow> \<not> n_ge t (Fin 1)"
    using b c by (auto simp: capital_world_def capital_store_def)
  from round_trip [OF a d, of "''Hello''" "''llama''"] a b c show ?thesis
    by simp
qed

text \<open>
  The claim as written fails in two ways. An embedding of zeros has similarity 0 with
  itself, so the prompt just stored is a miss at the threshold 0.85. And when the same
  prompt was stored before, both records have the same similarity and the lookup answers
  with the one that the store enumerates first, here the older response.
\<close>

theorem round_trip_fails:
  "similarityThreshold zero_cache \<le> 1
   \<and> fst (cacheResponse zero_cache ''hi'' ''Hello'' ''llama'' fresh_world) = Inr ()
   \<and> fst (findSimilarCache exact zero_cache ''hi''
        (snd (cacheResponse zero_cache ''hi'' ''Hello'' ''llama'' fresh_world))) = Inr None
   \<and> similarityThreshold unit_cache \<le> 1
   \<and> fst (cacheResponse unit_cache ''hi'' ''new'' ''llama''
        ((snd (cacheResponse unit_cache ''hi'' ''old'' ''llama'' fresh_world))\<lparr>clock := 1\<rparr>)) = Inr ()
   \<and> fst (findSimilarCache exact unit_cache ''hi''
        (snd (cacheResponse unit_cache ''hi'' ''new'' ''llama''
          ((snd (cacheResponse unit_cache ''hi'' ''old'' ''llama'' fresh_world))\<lparr>clock := 1\<rparr>)))) =
       Inr (Some (JEntry \<lparr>prompt = ''hi'', embedding = [1, 0, 0], response = ''old'',
                           timestamp = 0, model = ''llama''\<rparr>, Fin 1))"
proof -
  have a: "similarityThreshold zero_cache \<le> 1" "similarityThreshold unit_cache \<le> 1"
    by (simp_all add: zero_cache_def unit_cache_def)
  have b: "fst (cacheResponse zero_cache ''hi'' ''Hello'' ''llama'' fresh_world) = Inr ()"
    by (simp add: cacheResponse_eq zero_cache_def fresh_world_def empty_store_def)
  have c: "fst (findSimilarCache exact zero_cache ''hi''
        (snd (cacheResponse zero_cache ''hi'' ''Hello'' ''llama'' fresh_world))) = Inr None"
    by (simp add: cacheResponse_eq findSimilarCache_eq zero_cache_def fresh_world_def
        empty_store_def generateId_hi all_matches_def matches_cache key_match_def
        value_match_def cosine_zero_zero slice0_def sort_desc_def)
  have d: "fst (cacheResponse unit_cache ''hi'' ''new'' ''llama''
        ((snd (cacheResponse unit_cache ''hi'' ''old'' ''llama'' fresh_world))\<lparr>clock := 1\<rparr>)) = Inr ()"
    by (simp add: cacheResponse_eq unit_cache_def fresh_world_def empty_store_def)
  have e: "fst (findSimilarCache exact unit_cache ''hi''
        (snd (cacheResponse unit_cache ''hi'' ''new'' ''llama''
          ((snd (cacheResponse unit_cache ''hi'' ''old'' ''llama'' fresh_world))\<lparr>clock := 1\<rparr>)))) =
       Inr (Some (JEntry \<lparr>prompt = ''hi'', embedding = [1, 0, 0], response = ''old'',
                           timestamp = 0, model = ''llama''\<rparr>, Fin 1))"
    by (simp add: cacheResponse_eq findSimilarCache_eq unit_cache_def fresh_world_def
        empty_store_def generateId_hi generateId_hi_1 all_matches_def matches_cache
        key_match_def value_match_def cosine_unit_unit slice0_def sort_desc_def)
  from a b c d e show ?thesis by blast
qed

end
